theory Spec2Isabelle
  imports Main "HOL-Library.Word"
begin

unbundle bit_operations_syntax

section \<open>Go error values and \<open>errors.Is\<close>\<close>

text \<open>
  An error value of the program. \<open>errorString a s\<close> is the pointer returned by one
  call of \<open>errors.New(s)\<close>: \<open>a\<close> is its identity, so two calls with the same text give
  different errors. \<open>wrapError m e\<close> is \<open>fmt.Errorf\<close> with \<open>%w\<close> around \<open>e\<close> and
  \<open>joinError es\<close> is \<open>errors.Join\<close>. \<open>errorWithIs m ts\<close> is an error of a type that has
  its own method \<open>Is(error) bool\<close>, which answers true for the targets \<open>ts\<close>, and
  \<open>opaqueError m\<close> is an error of any other type (a decoder's syntax error, an
  encoder's unsupported value); neither wraps anything.
\<close>

datatype go_error =
    errorString nat string
  | wrapError string go_error
  | joinError "go_error list"
  | errorWithIs string "go_error list"
  | opaqueError string

text \<open>\<open>var ErrNotFound = errors.New("shop: not found")\<close>: one allocation, here at identity 0.\<close>

definition ErrNotFound :: go_error where
  "ErrNotFound = errorString 0 ''shop: not found''"

text \<open>
  \<open>errors.Is(err, target)\<close>: \<open>err\<close> matches when it equals the target or its own
  \<open>Is\<close> method accepts the target; otherwise it is unwrapped and the search goes on,
  depth first through a joined error.
\<close>

fun errors_Is :: "go_error \<Rightarrow> go_error \<Rightarrow> bool" where
  "errors_Is (wrapError m e) target = (wrapError m e = target \<or> errors_Is e target)"
| "errors_Is (joinError es) target =
     (joinError es = target \<or> list_ex (\<lambda>e. errors_Is e target) es)"
| "errors_Is (errorWithIs m ts) target = (errorWithIs m ts = target \<or> target \<in> set ts)"
| "errors_Is err target = (err = target)"

text \<open>The wrapping chain of an error: the error itself and everything reachable by unwrapping.\<close>

fun chain :: "go_error \<Rightarrow> go_error list" where
  "chain (wrapError m e) = wrapError m e # chain e"
| "chain (joinError es) = joinError es # concat (map chain es)"
| "chain err = [err]"

text \<open>One error of a chain matches a target: it is the target, or its \<open>Is\<close> method accepts it.\<close>

fun matches :: "go_error \<Rightarrow> go_error \<Rightarrow> bool" where
  "matches (errorWithIs m ts) target = (errorWithIs m ts = target \<or> target \<in> set ts)"
| "matches err target = (err = target)"

section \<open>Resource model\<close>

text \<open>\<open>type Price float64\<close>: the 64 bits of an IEEE 754 double.\<close>

type_synonym Price = "64 word"

record Product =
  ID :: string
  Name :: string
  Description :: string
  Price :: Price

text \<open>\<open>type ProductFilter struct{}\<close> and \<open>type ProductUpdate struct{}\<close>: no fields.\<close>

datatype ProductFilter = ProductFilter

datatype ProductUpdate = ProductUpdate

section \<open>The service contract\<close>

text \<open>
  The \<open>Service\<close> interface. \<open>'c\<close> is the request context handed through, \<open>'s\<close> the
  state behind the service; every method returns its result and the state it leaves.
  A nil slice of products is \<open>None\<close>.
\<close>

record ('c, 's) Service =
  svc_CreateProduct :: "'c \<Rightarrow> Product \<Rightarrow> 's \<Rightarrow> (go_error + Product) \<times> 's"
  svc_GetProduct :: "'c \<Rightarrow> string \<Rightarrow> 's \<Rightarrow> (go_error + Product) \<times> 's"
  svc_ListProducts :: "'c \<Rightarrow> ProductFilter \<Rightarrow> 's \<Rightarrow> (go_error + Product list option) \<times> 's"
  svc_UpdateProduct :: "'c \<Rightarrow> string \<Rightarrow> ProductUpdate \<Rightarrow> 's \<Rightarrow> (go_error + Product) \<times> 's"
  svc_DeleteProduct :: "'c \<Rightarrow> string \<Rightarrow> 's \<Rightarrow> go_error option \<times> 's"

text \<open>One invocation of a service method, with its arguments.\<close>

datatype 'c call =
    Call_CreateProduct 'c Product
  | Call_GetProduct 'c string
  | Call_ListProducts 'c ProductFilter
  | Call_UpdateProduct 'c string ProductUpdate
  | Call_DeleteProduct 'c string

section \<open>Logger\<close>

datatype Level = LevelDebug | LevelInfo | LevelWarn | LevelError

datatype Value = StringValue string | AnyValue go_error

record log_record =
  level :: Level
  message :: string
  attrs :: "(string \<times> Value) list"

section \<open>The state a handler runs in\<close>

text \<open>
  What a handler changes besides the response: the records its logger has emitted, the
  service methods invoked so far, and the state of the service.
\<close>

record ('c, 's) state =
  log :: "log_record list"
  calls :: "'c call list"
  store :: 's

definition logger_Info ::
  "string \<Rightarrow> (string \<times> Value) list \<Rightarrow> ('c, 's) state \<Rightarrow> ('c, 's) state" where
  "logger_Info msg args \<sigma> =
     \<sigma>\<lparr>log := log \<sigma> @ [\<lparr>level = LevelInfo, message = msg, attrs = args\<rparr>]\<rparr>"

section \<open>Response writer\<close>

abbreviation StatusOK :: nat where "StatusOK \<equiv> 200"
abbreviation StatusCreated :: nat where "StatusCreated \<equiv> 201"
abbreviation StatusNoContent :: nat where "StatusNoContent \<equiv> 204"
abbreviation StatusBadRequest :: nat where "StatusBadRequest \<equiv> 400"
abbreviation StatusNotFound :: nat where "StatusNotFound \<equiv> 404"
abbreviation StatusInternalServerError :: nat where "StatusInternalServerError \<equiv> 500"

text \<open>
  \<open>http.ResponseWriter\<close>: the header map, the status code once written, the body bytes.
\<close>

record ResponseWriter =
  header :: "string \<rightharpoonup> string"
  status :: "nat option"
  written :: string

definition NewRecorder :: ResponseWriter where
  "NewRecorder = \<lparr>header = Map.empty, status = None, written = []\<rparr>"

definition Header_Set :: "string \<Rightarrow> string \<Rightarrow> ResponseWriter \<Rightarrow> ResponseWriter" where
  "Header_Set k v rw = rw\<lparr>header := (header rw)(k \<mapsto> v)\<rparr>"

text \<open>Only the first \<open>WriteHeader\<close> counts.\<close>

definition WriteHeader :: "nat \<Rightarrow> ResponseWriter \<Rightarrow> ResponseWriter" where
  "WriteHeader code rw = (if status rw = None then rw\<lparr>status := Some code\<rparr> else rw)"

text \<open>\<open>Write\<close> sends status 200 first when no status has been written.\<close>

definition Write :: "string \<Rightarrow> ResponseWriter \<Rightarrow> ResponseWriter" where
  "Write b rw = (let rw' = WriteHeader StatusOK rw in rw'\<lparr>written := written rw' @ b\<rparr>)"

section \<open>Requests\<close>

text \<open>
  The parts of \<open>*http.Request\<close> the handlers read: the context, the route variables
  (\<open>mux.Vars(r)\<close>), the parsed query (\<open>r.URL.Query()\<close>) and the body bytes.
\<close>

record 'c Request =
  Context :: 'c
  Vars :: "string \<rightharpoonup> string"
  URL_Query :: "(string \<times> string list) list"
  Body :: string

text \<open>\<open>mux.Vars(r)["productID"]\<close>: indexing a Go map at a missing key gives the empty string.\<close>

definition idFromRequest :: "'c Request \<Rightarrow> string" where
  "idFromRequest r = (case Vars r ''productID'' of None \<Rightarrow> [] | Some v \<Rightarrow> v)"

section \<open>JSON\<close>

text \<open>
  The parts of \<open>encoding/json\<close> and \<open>strconv\<close> left open, all on scalars: the escaped
  form of a string that has a byte needing an escape and, back, the text of a string
  literal that has an escape or a byte outside ASCII; the decimal digits of a finite
  float and, back, the float of a number literal (none when it is out of range); and
  whether an object key with a byte outside ASCII equals a field name under case folding.
\<close>

record json_lib =
  escapeString :: "string \<Rightarrow> string"
  unquote :: "string \<Rightarrow> string"
  FormatFloat :: "64 word \<Rightarrow> string"
  ParseFloat :: "string \<Rightarrow> 64 word option"
  equalFold :: "string \<Rightarrow> string \<Rightarrow> bool"

subsection \<open>Encoding\<close>

text \<open>
  Bytes the encoder copies as they are: printable ASCII but the quote, the backslash and
  the three characters it escapes for HTML.
\<close>

definition htmlSafe :: "char \<Rightarrow> bool" where
  \<open>htmlSafe c = (0x20 \<le> (of_char c :: nat) \<and> (of_char c :: nat) < 0x80 \<and>
     c \<noteq> CHR 0x22 \<and> c \<noteq> CHR 0x5C \<and> c \<noteq> CHR ''<'' \<and> c \<noteq> CHR ''>'' \<and> c \<noteq> CHR ''&'')\<close>

definition encodeContent :: "json_lib \<Rightarrow> string \<Rightarrow> string" where
  "encodeContent L s = (if list_all htmlSafe s then s else escapeString L s)"

definition encodeString :: "json_lib \<Rightarrow> string \<Rightarrow> string" where
  "encodeString L s = CHR 0x22 # encodeContent L s @ [CHR 0x22]"

text \<open>NaN and the infinities: every exponent bit set.\<close>

definition nonfinite :: "Price \<Rightarrow> bool" where
  "nonfinite f = (drop_bit 52 f AND 0x7FF = 0x7FF)"

text \<open>\<open>omitempty\<close> on a float: the value equals zero, of either sign.\<close>

definition isEmptyFloat :: "Price \<Rightarrow> bool" where
  "isEmptyFloat f = (push_bit 1 f = 0)"

definition floatEncoder :: "json_lib \<Rightarrow> Price \<Rightarrow> go_error + string" where
  "floatEncoder L f =
     (if nonfinite f then Inl (opaqueError ''json: unsupported value'')
      else Inr (FormatFloat L f))"

fun join :: "string \<Rightarrow> string list \<Rightarrow> string" where
  "join sep [] = []"
| "join sep [x] = x"
| "join sep (x # y # ys) = x @ sep @ join sep (y # ys)"

text \<open>
  \<open>json.Marshal\<close> of a \<open>Product\<close>, by its struct tags: fields \<open>id\<close>, \<open>name\<close>,
  \<open>description\<close>, \<open>price\<close> in this order, each with \<open>omitempty\<close>.
\<close>

definition Marshal_Product :: "json_lib \<Rightarrow> Product \<Rightarrow> go_error + string" where
  \<open>Marshal_Product L p =
     (let fs =
        (if ID p = [] then [] else [''"id":'' @ encodeString L (ID p)]) @
        (if Name p = [] then [] else [''"name":'' @ encodeString L (Name p)]) @
        (if Description p = [] then []
         else [''"description":'' @ encodeString L (Description p)])
      in if isEmptyFloat (Price p) then Inr (''{'' @ join '','' fs @ ''}'')
         else case floatEncoder L (Price p) of
                Inl err \<Rightarrow> Inl err
              | Inr d \<Rightarrow> Inr (''{'' @ join '','' (fs @ [''"price":'' @ d]) @ ''}''))\<close>

fun Marshal_each :: "json_lib \<Rightarrow> Product list \<Rightarrow> go_error + string list" where
  "Marshal_each L [] = Inr []"
| "Marshal_each L (p # ps) =
     (case Marshal_Product L p of
        Inl err \<Rightarrow> Inl err
      | Inr b \<Rightarrow> (case Marshal_each L ps of Inl err \<Rightarrow> Inl err | Inr bs \<Rightarrow> Inr (b # bs)))"

definition Marshal_Products :: "json_lib \<Rightarrow> Product list option \<Rightarrow> go_error + string" where
  "Marshal_Products L ps =
     (case ps of
        None \<Rightarrow> Inr ''null''
      | Some xs \<Rightarrow>
          (case Marshal_each L xs of
             Inl err \<Rightarrow> Inl err
           | Inr bs \<Rightarrow> Inr (''['' @ join '','' bs @ '']'')))"

text \<open>
  \<open>json.NewEncoder(w).Encode(v)\<close>: marshals first; on an error nothing is written, else
  the JSON and a newline. The handlers drop the error it returns.
\<close>

definition Encode :: "go_error + string \<Rightarrow> ResponseWriter \<Rightarrow> ResponseWriter" where
  "Encode m rw = (case m of Inl err \<Rightarrow> rw | Inr b \<Rightarrow> Write (b @ [CHR 0x0A]) rw)"

subsection \<open>Values and the scanner\<close>

text \<open>
  A JSON value as read: a string keeps the text between its quotes and a number its
  literal, both undecoded.
\<close>

datatype json =
    JNull
  | JBool bool
  | JNumber string
  | JString string
  | JArray "json list"
  | JObject "(string \<times> json) list"

text \<open>
  The scanner of \<open>encoding/json\<close>, one step per byte, with the state functions of
  \<open>scanner.go\<close>. It also builds the value: a frame is an array or object that is open,
  with what it holds so far and, in an object, the key whose value is awaited.
\<close>

datatype frame =
    ArrayFrame "json list"
  | ObjectFrame "(string \<times> json) list" "string option"

datatype numstate =
  stateNeg | state0 | state1 | stateDot | stateDot0 | stateE | stateESign | stateE0

datatype mode =
    BeginValue
  | BeginValueOrEmpty
  | BeginStringOrEmpty
  | BeginString
  | EndValue
  | InString string
  | InStringEsc string
  | InStringEscU nat string
  | InNumber numstate string
  | InLiteral string json
  | EndTop json bool
  | ScanError

type_synonym scanner = "mode \<times> frame list"

definition isSpace :: "char \<Rightarrow> bool" where
  "isSpace c = (c = CHR 0x20 \<or> c = CHR 0x09 \<or> c = CHR 0x0D \<or> c = CHR 0x0A)"

definition isDigit :: "char \<Rightarrow> bool" where
  "isDigit c = (0x30 \<le> (of_char c :: nat) \<and> (of_char c :: nat) \<le> 0x39)"

definition isHex :: "char \<Rightarrow> bool" where
  "isHex c = (isDigit c \<or> (0x61 \<le> (of_char c :: nat) \<and> (of_char c :: nat) \<le> 0x66)
     \<or> (0x41 \<le> (of_char c :: nat) \<and> (of_char c :: nat) \<le> 0x46))"

definition stringStep :: "mode \<Rightarrow> char \<Rightarrow> mode" where
  "stringStep m c =
     (case m of
        InString acc \<Rightarrow>
          if c = CHR 0x5C then InStringEsc (acc @ [c])
          else if c = CHR 0x22 \<or> (of_char c :: nat) < 0x20 then ScanError
          else InString (acc @ [c])
      | InStringEsc acc \<Rightarrow>
          if c \<in> set ''bfnrt/'' \<or> c = CHR 0x5C \<or> c = CHR 0x22 then InString (acc @ [c])
          else if c = CHR ''u'' then InStringEscU 0 (acc @ [c])
          else ScanError
      | InStringEscU n acc \<Rightarrow>
          if isHex c then (if n = 3 then InString (acc @ [c]) else InStringEscU (Suc n) (acc @ [c]))
          else ScanError
      | _ \<Rightarrow> ScanError)"

definition accepting :: "numstate \<Rightarrow> bool" where
  "accepting ns = (ns = state0 \<or> ns = state1 \<or> ns = stateDot0 \<or> ns = stateE0)"

definition numStep :: "numstate \<Rightarrow> char \<Rightarrow> numstate option" where
  "numStep ns c =
     (case ns of
        stateNeg \<Rightarrow>
          if c = CHR ''0'' then Some state0 else if isDigit c then Some state1 else None
      | state1 \<Rightarrow>
          if isDigit c then Some state1
          else if c = CHR ''.'' then Some stateDot
          else if c = CHR ''e'' \<or> c = CHR ''E'' then Some stateE else None
      | state0 \<Rightarrow>
          if c = CHR ''.'' then Some stateDot
          else if c = CHR ''e'' \<or> c = CHR ''E'' then Some stateE else None
      | stateDot \<Rightarrow> if isDigit c then Some stateDot0 else None
      | stateDot0 \<Rightarrow>
          if isDigit c then Some stateDot0
          else if c = CHR ''e'' \<or> c = CHR ''E'' then Some stateE else None
      | stateE \<Rightarrow>
          if c = CHR ''+'' \<or> c = CHR ''-'' then Some stateESign
          else if isDigit c then Some stateE0 else None
      | stateESign \<Rightarrow> if isDigit c then Some stateE0 else None
      | stateE0 \<Rightarrow> if isDigit c then Some stateE0 else None)"

definition maxNestingDepth :: nat where
  "maxNestingDepth = 10000"

definition pushParseState :: "frame \<Rightarrow> mode \<Rightarrow> frame list \<Rightarrow> scanner" where
  "pushParseState f m st =
     (if length st < maxNestingDepth then (m, f # st) else (ScanError, st))"

definition complete :: "json \<Rightarrow> frame list \<Rightarrow> scanner" where
  "complete v st =
     (case st of
        [] \<Rightarrow> (EndTop v True, [])
      | ArrayFrame items # st' \<Rightarrow> (EndValue, ArrayFrame (items @ [v]) # st')
      | ObjectFrame ps (Some k) # st' \<Rightarrow> (EndValue, ObjectFrame (ps @ [(k, v)]) None # st')
      | ObjectFrame ps None # st' \<Rightarrow> (ScanError, st))"

definition endString :: "string \<Rightarrow> frame list \<Rightarrow> scanner" where
  "endString raw st =
     (case st of
        ObjectFrame ps None # st' \<Rightarrow> (EndValue, ObjectFrame ps (Some raw) # st')
      | _ \<Rightarrow> complete (JString raw) st)"

definition stateBeginValue :: "char \<Rightarrow> frame list \<Rightarrow> scanner" where
  "stateBeginValue c st =
     (if isSpace c then (BeginValue, st)
      else if c = CHR ''{'' then pushParseState (ObjectFrame [] None) BeginStringOrEmpty st
      else if c = CHR ''['' then pushParseState (ArrayFrame []) BeginValueOrEmpty st
      else if c = CHR 0x22 then (InString [], st)
      else if c = CHR ''-'' then (InNumber stateNeg [c], st)
      else if c = CHR ''0'' then (InNumber state0 [c], st)
      else if isDigit c then (InNumber state1 [c], st)
      else if c = CHR ''t'' then (InLiteral ''rue'' (JBool True), st)
      else if c = CHR ''f'' then (InLiteral ''alse'' (JBool False), st)
      else if c = CHR ''n'' then (InLiteral ''ull'' JNull, st)
      else (ScanError, st))"

definition stateEndValue :: "char \<Rightarrow> frame list \<Rightarrow> scanner" where
  "stateEndValue c st =
     (if isSpace c then (EndValue, st)
      else case st of
             [] \<Rightarrow> (ScanError, st)
           | ObjectFrame ps (Some k) # st' \<Rightarrow>
               if c = CHR '':'' then (BeginValue, st) else (ScanError, st)
           | ObjectFrame ps None # st' \<Rightarrow>
               if c = CHR '','' then (BeginString, st)
               else if c = CHR ''}'' then complete (JObject ps) st'
               else (ScanError, st)
           | ArrayFrame items # st' \<Rightarrow>
               if c = CHR '','' then (BeginValue, st)
               else if c = CHR '']'' then complete (JArray items) st'
               else (ScanError, st))"

definition stateBeginValueOrEmpty :: "char \<Rightarrow> frame list \<Rightarrow> scanner" where
  "stateBeginValueOrEmpty c st =
     (if isSpace c then (BeginValueOrEmpty, st)
      else if c = CHR '']'' then
        (case st of ArrayFrame items # st' \<Rightarrow> complete (JArray items) st'
         | _ \<Rightarrow> (ScanError, st))
      else stateBeginValue c st)"

definition stateBeginString :: "char \<Rightarrow> frame list \<Rightarrow> scanner" where
  "stateBeginString c st =
     (if isSpace c then (BeginString, st)
      else if c = CHR 0x22 then (InString [], st)
      else (ScanError, st))"

definition stateBeginStringOrEmpty :: "char \<Rightarrow> frame list \<Rightarrow> scanner" where
  "stateBeginStringOrEmpty c st =
     (if isSpace c then (BeginStringOrEmpty, st)
      else if c = CHR ''}'' then
        (case st of ObjectFrame ps None # st' \<Rightarrow> complete (JObject ps) st'
         | _ \<Rightarrow> (ScanError, st))
      else stateBeginString c st)"

definition endNumber :: "string \<Rightarrow> char \<Rightarrow> frame list \<Rightarrow> scanner" where
  "endNumber lit c st =
     (case st of
        [] \<Rightarrow> (EndTop (JNumber lit) (isSpace c), [])
      | _ \<Rightarrow> stateEndValue c (snd (complete (JNumber lit) st)))"

definition step :: "scanner \<Rightarrow> char \<Rightarrow> scanner" where
  "step s c =
     (case s of (m, st) \<Rightarrow>
        (case m of
           BeginValue \<Rightarrow> stateBeginValue c st
         | BeginValueOrEmpty \<Rightarrow> stateBeginValueOrEmpty c st
         | BeginStringOrEmpty \<Rightarrow> stateBeginStringOrEmpty c st
         | BeginString \<Rightarrow> stateBeginString c st
         | EndValue \<Rightarrow> stateEndValue c st
         | InString acc \<Rightarrow> if c = CHR 0x22 then endString acc st else (stringStep m c, st)
         | InStringEsc acc \<Rightarrow> (stringStep m c, st)
         | InStringEscU n acc \<Rightarrow> (stringStep m c, st)
         | InNumber ns lit \<Rightarrow>
             (case numStep ns c of
                Some ns' \<Rightarrow> (InNumber ns' (lit @ [c]), st)
              | None \<Rightarrow> if accepting ns then endNumber lit c st else (ScanError, st))
         | InLiteral rest v \<Rightarrow>
             (case rest of
                [] \<Rightarrow> (ScanError, st)
              | x # xs \<Rightarrow>
                  if c = x then (if xs = [] then complete v st else (InLiteral xs v, st))
                  else (ScanError, st))
         | EndTop v clean \<Rightarrow> (EndTop v (clean \<and> isSpace c), st)
         | ScanError \<Rightarrow> (ScanError, st)))"

definition scan :: "string \<Rightarrow> scanner" where
  "scan body = foldl step (BeginValue, []) body"


text \<open>
  \<open>Decoder.Decode\<close> reads the first value of the body: at the end of the input a number
  at the top level is complete, an empty body is \<open>io.EOF\<close> and a value cut short is
  \<open>io.ErrUnexpectedEOF\<close>. Bytes after the first value are never looked at.
\<close>

definition readValue :: "string \<Rightarrow> go_error + json" where
  "readValue body =
     (case scan body of (m, st) \<Rightarrow>
        (case m of
           EndTop v clean \<Rightarrow> Inr v
         | InNumber ns lit \<Rightarrow>
             if st = [] \<and> accepting ns then Inr (JNumber lit)
             else Inl (opaqueError ''unexpected EOF'')
         | ScanError \<Rightarrow> Inl (opaqueError ''json: syntax error'')
         | BeginValue \<Rightarrow>
             if st = [] then Inl (opaqueError ''EOF'') else Inl (opaqueError ''unexpected EOF'')
         | _ \<Rightarrow> Inl (opaqueError ''unexpected EOF'')))"

text \<open>\<open>json.Valid\<close>: the whole body is one JSON value, with white space around it at most.\<close>

definition Valid :: "string \<Rightarrow> bool" where
  "Valid body =
     (case scan body of (m, st) \<Rightarrow>
        (case m of
           EndTop v clean \<Rightarrow> clean
         | InNumber ns lit \<Rightarrow> st = [] \<and> accepting ns
         | _ \<Rightarrow> False))"

subsection \<open>String and number literals the scanner accepts\<close>


definition content_ok :: "string \<Rightarrow> bool" where
  "content_ok raw = (foldl stringStep (InString []) raw = InString raw)"


definition numNext :: "numstate option \<Rightarrow> char \<Rightarrow> numstate option" where
  "numNext s c = (case s of None \<Rightarrow> None | Some ns \<Rightarrow> numStep ns c)"


subsection \<open>Decoding into the structs\<close>

text \<open>
  The text of a string literal that is plain (ASCII, no escape) is the string itself;
  any other is unquoted by the library.
\<close>

definition plain :: "char \<Rightarrow> bool" where
  "plain c = (0x20 \<le> (of_char c :: nat) \<and> (of_char c :: nat) < 0x80 \<and>
     c \<noteq> CHR 0x22 \<and> c \<noteq> CHR 0x5C)"

definition decodeString :: "json_lib \<Rightarrow> string \<Rightarrow> string" where
  "decodeString L raw = (if list_all plain raw then raw else unquote L raw)"

text \<open>
  A key names a field when the two are equal under case folding: for an ASCII key,
  letter by letter without regard to case.
\<close>

definition eqFoldChar :: "char \<Rightarrow> char \<Rightarrow> bool" where
  "eqFoldChar a b =
     (a = b \<or>
      (0x41 \<le> (of_char a :: nat) \<and> (of_char a :: nat) \<le> 0x5A \<and>
         (of_char a :: nat) + 0x20 = of_char b) \<or>
      (0x41 \<le> (of_char b :: nat) \<and> (of_char b :: nat) \<le> 0x5A \<and>
         (of_char b :: nat) + 0x20 = of_char a))"

definition names :: "json_lib \<Rightarrow> string \<Rightarrow> string \<Rightarrow> bool" where
  "names L key field =
     (if list_all (\<lambda>c. (of_char c :: nat) < 0x80) key then list_all2 eqFoldChar key field
      else equalFold L key field)"

text \<open>
  A value stored into a string field and into the float field: \<open>null\<close> leaves the field
  as it is, a value of another kind is an \<open>UnmarshalTypeError\<close>.
\<close>

definition stringField :: "json_lib \<Rightarrow> json \<Rightarrow> go_error + string option" where
  "stringField L v =
     (case v of
        JString raw \<Rightarrow> Inr (Some (decodeString L raw))
      | JNull \<Rightarrow> Inr None
      | _ \<Rightarrow> Inl (opaqueError ''json: cannot unmarshal into Go struct field of type string''))"

definition floatField :: "json_lib \<Rightarrow> json \<Rightarrow> go_error + Price option" where
  "floatField L v =
     (case v of
        JNumber lit \<Rightarrow>
          (case ParseFloat L lit of
             Some f \<Rightarrow> Inr (Some f)
           | None \<Rightarrow>
               Inl (opaqueError ''json: cannot unmarshal number into Go struct field of type shop.Price''))
      | JNull \<Rightarrow> Inr None
      | _ \<Rightarrow> Inl (opaqueError ''json: cannot unmarshal into Go struct field of type shop.Price''))"

text \<open>
  One member of an object stored into a \<open>Product\<close>, by the struct tags \<open>id\<close>, \<open>name\<close>,
  \<open>description\<close>, \<open>price\<close>; a key that names no field is skipped with its value.
\<close>

definition storeMember :: "json_lib \<Rightarrow> string \<times> json \<Rightarrow> Product \<Rightarrow> go_error + Product" where
  "storeMember L kv p =
     (let key = decodeString L (fst kv); v = snd kv
      in if names L key ''id'' then
           (case stringField L v of
              Inl err \<Rightarrow> Inl err
            | Inr None \<Rightarrow> Inr p
            | Inr (Some s) \<Rightarrow> Inr (p\<lparr>ID := s\<rparr>))
         else if names L key ''name'' then
           (case stringField L v of
              Inl err \<Rightarrow> Inl err
            | Inr None \<Rightarrow> Inr p
            | Inr (Some s) \<Rightarrow> Inr (p\<lparr>Name := s\<rparr>))
         else if names L key ''description'' then
           (case stringField L v of
              Inl err \<Rightarrow> Inl err
            | Inr None \<Rightarrow> Inr p
            | Inr (Some s) \<Rightarrow> Inr (p\<lparr>Description := s\<rparr>))
         else if names L key ''price'' then
           (case floatField L v of
              Inl err \<Rightarrow> Inl err
            | Inr None \<Rightarrow> Inr p
            | Inr (Some f) \<Rightarrow> Inr (p\<lparr>Price := f\<rparr>))
         else Inr p)"

fun storeMembers :: "json_lib \<Rightarrow> (string \<times> json) list \<Rightarrow> Product \<Rightarrow> go_error + Product" where
  "storeMembers L [] p = Inr p"
| "storeMembers L (kv # kvs) p =
     (case storeMember L kv p of Inl err \<Rightarrow> Inl err | Inr p' \<Rightarrow> storeMembers L kvs p')"

text \<open>\<open>var p Product\<close>: every field at its zero value.\<close>

definition zero_Product :: Product where
  "zero_Product = \<lparr>ID = [], Name = [], Description = [], Price = 0\<rparr>"

text \<open>
  A value unmarshalled into a \<open>Product\<close> and into a \<open>ProductUpdate\<close>: an object is
  stored member by member, \<open>null\<close> changes nothing, any other value is an
  \<open>UnmarshalTypeError\<close>.
\<close>

definition unmarshal_Product :: "json_lib \<Rightarrow> json \<Rightarrow> go_error + Product" where
  "unmarshal_Product L v =
     (case v of
        JObject kvs \<Rightarrow> storeMembers L kvs zero_Product
      | JNull \<Rightarrow> Inr zero_Product
      | _ \<Rightarrow> Inl (opaqueError ''json: cannot unmarshal into Go value of type shop.Product''))"

definition unmarshal_ProductUpdate :: "json \<Rightarrow> go_error + ProductUpdate" where
  "unmarshal_ProductUpdate v =
     (case v of
        JObject kvs \<Rightarrow> Inr ProductUpdate
      | JNull \<Rightarrow> Inr ProductUpdate
      | _ \<Rightarrow> Inl (opaqueError ''json: cannot unmarshal into Go value of type shop.ProductUpdate''))"

text \<open>\<open>json.NewDecoder(r.Body).Decode(&p)\<close> and \<open>Decode(&upd)\<close>.\<close>

definition Decode_Product :: "json_lib \<Rightarrow> string \<Rightarrow> go_error + Product" where
  "Decode_Product L body =
     (case readValue body of Inl err \<Rightarrow> Inl err | Inr v \<Rightarrow> unmarshal_Product L v)"

definition Decode_ProductUpdate :: "json_lib \<Rightarrow> string \<Rightarrow> go_error + ProductUpdate" where
  "Decode_ProductUpdate L body =
     (case readValue body of Inl err \<Rightarrow> Inl err | Inr v \<Rightarrow> unmarshal_ProductUpdate v)"

section \<open>Query decoding\<close>

text \<open>
  The \<open>gorilla/schema\<close> decoder, on a \<open>ProductFilter\<close>. The struct has no field, so no
  key of the query names one: each key is skipped when unknown keys are ignored and is
  an error otherwise.
\<close>

record schema_Decoder =
  ignoreUnknownKeys :: bool

definition schema_NewDecoder :: schema_Decoder where
  "schema_NewDecoder = \<lparr>ignoreUnknownKeys = False\<rparr>"

definition IgnoreUnknownKeys :: "bool \<Rightarrow> schema_Decoder \<Rightarrow> schema_Decoder" where
  "IgnoreUnknownKeys i d = d\<lparr>ignoreUnknownKeys := i\<rparr>"

definition schema_Decode ::
  "schema_Decoder \<Rightarrow> (string \<times> string list) list \<Rightarrow> go_error + ProductFilter" where
  "schema_Decode d src =
     (let multiError = (if ignoreUnknownKeys d then [] else map fst src)
      in if multiError = [] then Inr ProductFilter
         else Inl (opaqueError ''schema: invalid path''))"

section \<open>Handlers\<close>

text \<open>
  The handler holds the service and the JSON library it is linked with. The logger of
  the source is the \<open>log\<close> of the state; the router built by \<open>NewHandler\<close>, which fills
  the route variables of a request before a handler runs, is not modelled.
\<close>

record ('c, 's) Handler =
  service :: "('c, 's) Service"
  json :: json_lib

text \<open>A call of a service method: the call is recorded and the service's state replaced.\<close>

definition invoke ::
  "'c call \<Rightarrow> ('s \<Rightarrow> 'r \<times> 's) \<Rightarrow> ('c, 's) state \<Rightarrow> 'r \<times> ('c, 's) state" where
  "invoke c m \<sigma> =
     (let (res, s') = m (store \<sigma>) in (res, \<sigma>\<lparr>calls := calls \<sigma> @ [c], store := s'\<rparr>))"

text \<open>
  The five handlers of \<open>shop.go\<close>. Each takes the response writer and the request, as
  in the source, and the state it runs in; it returns the writer and the state it
  leaves. The second source file holds \<open>GetProduct\<close> and \<open>ListProducts\<close> alone, with
  the same bodies (its \<open>ListProducts\<close> builds the decoder on every request).
\<close>

text \<open>\<open>POST /products\<close>\<close>

definition CreateProduct ::
  "('c, 's) Handler \<Rightarrow> ResponseWriter \<Rightarrow> 'c Request \<Rightarrow> ('c, 's) state
     \<Rightarrow> ResponseWriter \<times> ('c, 's) state" where
  "CreateProduct h rw r \<sigma> =
     (case Decode_Product (json h) (Body r) of
        Inl err \<Rightarrow> (WriteHeader StatusBadRequest rw, \<sigma>)
      | Inr p \<Rightarrow>
          (let (res, \<sigma>1) = invoke (Call_CreateProduct (Context r) p)
                               (svc_CreateProduct (service h) (Context r) p) \<sigma>
           in case res of
                Inl err \<Rightarrow>
                  (WriteHeader StatusInternalServerError rw,
                   logger_Info ''failed to create product'' [(''error'', AnyValue err)] \<sigma>1)
              | Inr product \<Rightarrow>
                  (let url = ''/products/'' @ ID product
                   in (Encode (Marshal_Product (json h) product)
                         (WriteHeader StatusCreated
                           (Header_Set ''Content-Type'' ''application/json''
                             (Header_Set ''Location'' url rw))),
                       \<sigma>1))))"

text \<open>\<open>GET /products/{productID}\<close>\<close>

definition GetProduct ::
  "('c, 's) Handler \<Rightarrow> ResponseWriter \<Rightarrow> 'c Request \<Rightarrow> ('c, 's) state
     \<Rightarrow> ResponseWriter \<times> ('c, 's) state" where
  "GetProduct h rw r \<sigma> =
     (let id = idFromRequest r;
          (res, \<sigma>1) = invoke (Call_GetProduct (Context r) id)
                          (svc_GetProduct (service h) (Context r) id) \<sigma>
      in case res of
           Inl err \<Rightarrow>
             (if errors_Is err ErrNotFound then (WriteHeader StatusNotFound rw, \<sigma>1)
              else (WriteHeader StatusInternalServerError rw,
                    logger_Info ''failed to get product''
                      [(''id'', StringValue id), (''error'', AnyValue err)] \<sigma>1))
         | Inr product \<Rightarrow>
             (Encode (Marshal_Product (json h) product)
                (WriteHeader StatusOK (Header_Set ''Content-Type'' ''application/json'' rw)),
              \<sigma>1))"

text \<open>\<open>GET /products\<close>: the decoder is built once, ignoring unknown keys.\<close>

definition ListProducts ::
  "('c, 's) Handler \<Rightarrow> ResponseWriter \<Rightarrow> 'c Request \<Rightarrow> ('c, 's) state
     \<Rightarrow> ResponseWriter \<times> ('c, 's) state" where
  "ListProducts h rw r \<sigma> =
     (let decoder = IgnoreUnknownKeys True schema_NewDecoder
      in case schema_Decode decoder (URL_Query r) of
           Inl err \<Rightarrow>
             (WriteHeader StatusBadRequest rw,
              logger_Info ''failed to decode request'' [(''error'', AnyValue err)] \<sigma>)
         | Inr f \<Rightarrow>
             (let (res, \<sigma>1) = invoke (Call_ListProducts (Context r) f)
                                  (svc_ListProducts (service h) (Context r) f) \<sigma>
              in case res of
                   Inl err \<Rightarrow>
                     (WriteHeader StatusInternalServerError rw,
                      logger_Info ''failed to list products'' [(''error'', AnyValue err)] \<sigma>1)
                 | Inr products \<Rightarrow>
                     (Encode (Marshal_Products (json h) products)
                        (WriteHeader StatusOK
                          (Header_Set ''Content-Type'' ''application/json'' rw)),
                      \<sigma>1)))"

text \<open>\<open>PATCH /products/{productID}\<close>\<close>

definition UpdateProduct ::
  "('c, 's) Handler \<Rightarrow> ResponseWriter \<Rightarrow> 'c Request \<Rightarrow> ('c, 's) state
     \<Rightarrow> ResponseWriter \<times> ('c, 's) state" where
  "UpdateProduct h rw r \<sigma> =
     (let id = idFromRequest r
      in case Decode_ProductUpdate (json h) (Body r) of
           Inl err \<Rightarrow> (WriteHeader StatusBadRequest rw, \<sigma>)
         | Inr upd \<Rightarrow>
             (let (res, \<sigma>1) = invoke (Call_UpdateProduct (Context r) id upd)
                                  (svc_UpdateProduct (service h) (Context r) id upd) \<sigma>
              in case res of
                   Inl err \<Rightarrow>
                     (if errors_Is err ErrNotFound then (WriteHeader StatusNotFound rw, \<sigma>1)
                      else (WriteHeader StatusInternalServerError rw,
                            logger_Info ''failed to update product''
                              [(''id'', StringValue id), (''error'', AnyValue err)] \<sigma>1))
                 | Inr product \<Rightarrow>
                     (Encode (Marshal_Product (json h) product)
                        (WriteHeader StatusOK
                          (Header_Set ''Content-Type'' ''application/json'' rw)),
                      \<sigma>1)))"

text \<open>\<open>DELETE /products/{productID}\<close>\<close>

definition DeleteProduct ::
  "('c, 's) Handler \<Rightarrow> ResponseWriter \<Rightarrow> 'c Request \<Rightarrow> ('c, 's) state
     \<Rightarrow> ResponseWriter \<times> ('c, 's) state" where
  "DeleteProduct h rw r \<sigma> =
     (let id = idFromRequest r;
          (res, \<sigma>1) = invoke (Call_DeleteProduct (Context r) id)
                          (svc_DeleteProduct (service h) (Context r) id) \<sigma>
      in case res of
           Some err \<Rightarrow>
             (if errors_Is err ErrNotFound then (WriteHeader StatusNotFound rw, \<sigma>1)
              else (WriteHeader StatusInternalServerError rw,
                    logger_Info ''failed to delete product''
                      [(''id'', StringValue id), (''error'', AnyValue err)] \<sigma>1))
         | None \<Rightarrow> (WriteHeader StatusNoContent rw, \<sigma>1))"

section \<open>The round trip\<close>


text \<open>
  A string survives the library when the escaped text the encoder writes for it is a
  well-formed literal that the decoder reads back as the string. The scalar fields of a
  product are restored when each string survives and the price, unless it is left out,
  is written as a well-formed number that parses back to it.
\<close>

definition survives :: "json_lib \<Rightarrow> string \<Rightarrow> bool" where
  "survives L s =
     (content_ok (encodeContent L s) \<and> decodeString L (encodeContent L s) = s)"




section \<open>A test double of the service, and sample requests\<close>

text \<open>
  A service that answers every call with one fixed result and counts its calls; the
  list call answers with the one product, the delete call with the error alone.
\<close>

definition stub :: "go_error + Product \<Rightarrow> ('c, nat) Service" where
  "stub res =
     \<lparr>svc_CreateProduct = (\<lambda>ctx p n. (res, Suc n)),
      svc_GetProduct = (\<lambda>ctx id n. (res, Suc n)),
      svc_ListProducts =
        (\<lambda>ctx f n. (case res of Inl err \<Rightarrow> Inl err | Inr p \<Rightarrow> Inr (Some [p]), Suc n)),
      svc_UpdateProduct = (\<lambda>ctx id upd n. (res, Suc n)),
      svc_DeleteProduct =
        (\<lambda>ctx id n. (case res of Inl err \<Rightarrow> Some err | Inr p \<Rightarrow> None, Suc n))\<rparr>"

text \<open>
  A sample of the open parts of the JSON library, for strings that need none of them and
  for one price: strings are left as they are; the double 1.5 is written \<open>1.5\<close> and
  read back from it, every other float is written \<open>0\<close> and every other literal read
  as zero.
\<close>

definition sample_json :: json_lib where
  "sample_json =
     \<lparr>escapeString = (\<lambda>s. s), unquote = (\<lambda>s. s),
      FormatFloat = (\<lambda>f. if f = 0x3FF8000000000000 then ''1.5'' else ''0''),
      ParseFloat = (\<lambda>s. if s = ''1.5'' then Some 0x3FF8000000000000 else Some 0),
      equalFold = (\<lambda>k f. False)\<rparr>"

definition testing :: "go_error + Product \<Rightarrow> (unit, nat) Handler" where
  "testing res = \<lparr>service = stub res, json = sample_json\<rparr>"

definition request :: "string option \<Rightarrow> string \<Rightarrow> unit Request" where
  "request v b =
     \<lparr>Context = (),
      Vars = (case v of None \<Rightarrow> Map.empty | Some i \<Rightarrow> [''productID'' \<mapsto> i]),
      URL_Query = [], Body = b\<rparr>"

definition idle :: "(unit, nat) state" where
  "idle = \<lparr>log = [], calls = [], store = 0\<rparr>"

text \<open>
  Sample errors: the sentinel wrapped twice and joined; another error with the
  sentinel's text; an error whose \<open>Is\<close> method accepts the sentinel.
\<close>

definition wrapped_not_found :: go_error where
  "wrapped_not_found =
     wrapError ''get product 7: shop: not found''
       (joinError [opaqueError ''cache miss'', wrapError ''db: shop: not found'' ErrNotFound])"

definition look_alike :: go_error where
  "look_alike = wrapError ''get product 7: shop: not found'' (errorString 1 ''shop: not found'')"

definition no_such_row :: go_error where
  "no_such_row = errorWithIs ''sql: no rows'' [ErrNotFound]"

text \<open>
  Sample products: one with id and name only, one whose price is a NaN, one whose price
  is 1.5.
\<close>

definition product_42 :: Product where
  "product_42 = \<lparr>ID = ''42'', Name = ''X'', Description = [], Price = 0\<rparr>"

definition product_nan :: Product where
  "product_nan = \<lparr>ID = ''42'', Name = ''X'', Description = [], Price = 0x7FF8000000000000\<rparr>"


section \<open>Facts about the decoder\<close>

lemmas scanner_defs = scan_def step_def stateBeginValue_def stateEndValue_def
  stateBeginValueOrEmpty_def stateBeginString_def stateBeginStringOrEmpty_def endNumber_def
  endString_def complete_def numStep_def pushParseState_def maxNestingDepth_def stringStep_def
  isSpace_def isDigit_def isHex_def accepting_def

lemmas decoder_defs = Decode_Product_def Decode_ProductUpdate_def unmarshal_Product_def
  unmarshal_ProductUpdate_def storeMember_def stringField_def floatField_def names_def
  eqFoldChar_def decodeString_def plain_def zero_Product_def readValue_def

text \<open>The decoder on the sample bodies: whole, cut short, and followed by other bytes.\<close>

lemma Decode_Product_name_X:
  \<open>Decode_Product L ''{"name":"X"}'' =
     Inr \<lparr>ID = [], Name = ''X'', Description = [], Price = 0\<rparr>\<close>
  by (simp add: decoder_defs scanner_defs)

lemma Decode_Product_cut_short:
  \<open>Decode_Product L ''{"name":'' = Inl (opaqueError ''unexpected EOF'')\<close>
  by (simp add: decoder_defs scanner_defs)

lemma Decode_Product_trailing:
  \<open>Decode_Product L ''{"name":"X"}xyz'' =
     Inr \<lparr>ID = [], Name = ''X'', Description = [], Price = 0\<rparr>\<close>
  by (simp add: decoder_defs scanner_defs)

lemma Decode_ProductUpdate_empty_object:
  \<open>Decode_ProductUpdate L ''{}'' = Inr ProductUpdate\<close>
  by (simp add: decoder_defs scanner_defs)

lemma Decode_ProductUpdate_cut_short:
  \<open>Decode_ProductUpdate L ''{"name":'' = Inl (opaqueError ''unexpected EOF'')\<close>
  by (simp add: decoder_defs scanner_defs)

lemma Decode_ProductUpdate_trailing:
  \<open>Decode_ProductUpdate L ''{}xyz'' = Inr ProductUpdate\<close>
  by (simp add: decoder_defs scanner_defs)

lemmas sample_bodies = Decode_Product_name_X Decode_Product_cut_short Decode_Product_trailing
  Decode_ProductUpdate_empty_object Decode_ProductUpdate_cut_short Decode_ProductUpdate_trailing

text \<open>Once the first value is read, the bytes that follow change nothing.\<close>

lemma foldl_step_EndTop:
  "foldl step (EndTop v clean, st) xs = (EndTop v (clean \<and> list_all isSpace xs), st)"
  by (induction xs arbitrary: clean) (simp_all add: step_def conj_assoc)

lemma readValue_ignores_rest:
  assumes "scan xs = (EndTop v clean, st)"
  shows "readValue (xs @ ys) = Inr v"
proof -
  have "scan (xs @ ys) = foldl step (scan xs) ys"
    by (simp add: scan_def)
  with assms show ?thesis
    by (simp add: readValue_def foldl_step_EndTop)
qed

lemma readValue_empty_array: "readValue ''[]'' = Inr (JArray [])"
  by (simp add: readValue_def scanner_defs)

lemma readValue_cut_short: \<open>readValue ''{"name":'' = Inl (opaqueError ''unexpected EOF'')\<close>
  by (simp add: readValue_def scanner_defs)

lemma not_Valid_trailing: \<open>\<not> Valid ''{"name":"X"}xyz'' \<and> \<not> Valid ''{}xyz''\<close>
  by (simp add: Valid_def scanner_defs)

text \<open>The scanner on a well-formed string literal and on a well-formed number literal.\<close>

lemma foldl_stringStep_ScanError [simp]: "foldl stringStep ScanError xs = ScanError"
  by (induction xs) (simp_all add: stringStep_def)





lemma plain_stringStep:
  "list_all plain raw \<Longrightarrow> foldl stringStep (InString acc) raw = InString (acc @ raw)"
  by (induction raw arbitrary: acc) (simp_all add: stringStep_def plain_def)

lemma plain_content_ok: "list_all plain raw \<Longrightarrow> content_ok raw"
  by (simp add: content_ok_def plain_stringStep)

lemma htmlSafe_plain: "htmlSafe c \<Longrightarrow> plain c"
  by (simp add: htmlSafe_def plain_def)

lemma htmlSafe_survives: "list_all htmlSafe s \<Longrightarrow> survives L s"
proof -
  assume safe: "list_all htmlSafe s"
  then have "list_all plain s"
    by (induction s) (simp_all add: htmlSafe_plain)
  with safe show ?thesis
    by (simp add: survives_def encodeContent_def decodeString_def plain_content_ok)
qed

lemma numNext_None [simp]: "numNext None c = None"
  by (simp add: numNext_def)

lemma numNext_Some [simp]: "numNext (Some ns) c = numStep ns c"
  by (simp add: numNext_def)

lemma foldl_numNext_None [simp]: "foldl numNext None cs = None"
  by (induction cs) simp_all





lemma numStep_brace [simp]: "numStep ns (CHR ''}'') = None"
  by (cases ns) (simp_all add: numStep_def isDigit_def)














section \<open>Facts about the handlers\<close>

lemma errors_Is_chain: "errors_Is e t \<longleftrightarrow> (\<exists>x \<in> set (chain e). matches x t)"
  by (induction e t rule: errors_Is.induct) (auto simp: list_ex_iff)

lemma matches_refl [simp]: "matches e e"
  by (cases e) simp_all

lemma errors_Is_member: "t \<in> set (chain e) \<Longrightarrow> errors_Is e t"
  unfolding errors_Is_chain using matches_refl by blast

lemma status_WriteHeader_new [simp]: "status (WriteHeader code NewRecorder) = Some code"
  by (simp add: WriteHeader_def NewRecorder_def)

lemma log_logger_Info [simp]:
  "log (logger_Info msg args \<sigma>) = log \<sigma> @ [\<lparr>level = LevelInfo, message = msg, attrs = args\<rparr>]"
  by (simp add: logger_Info_def)

lemma GetProduct_failed:
  assumes "svc_GetProduct (service h) (Context r) (idFromRequest r) (store \<sigma>) = (Inl err, s')"
  shows "GetProduct h rw r \<sigma> =
    (let \<sigma>1 = \<sigma>\<lparr>calls := calls \<sigma> @ [Call_GetProduct (Context r) (idFromRequest r)],
                 store := s'\<rparr>
     in if errors_Is err ErrNotFound then (WriteHeader StatusNotFound rw, \<sigma>1)
        else (WriteHeader StatusInternalServerError rw,
              logger_Info ''failed to get product''
                [(''id'', StringValue (idFromRequest r)), (''error'', AnyValue err)] \<sigma>1))"
  using assms by (simp add: GetProduct_def invoke_def Let_def)

lemma UpdateProduct_failed:
  assumes "Decode_ProductUpdate (json h) (Body r) = Inr upd"
    and "svc_UpdateProduct (service h) (Context r) (idFromRequest r) upd (store \<sigma>) = (Inl err, s')"
  shows "UpdateProduct h rw r \<sigma> =
    (let \<sigma>1 = \<sigma>\<lparr>calls := calls \<sigma> @ [Call_UpdateProduct (Context r) (idFromRequest r) upd],
                 store := s'\<rparr>
     in if errors_Is err ErrNotFound then (WriteHeader StatusNotFound rw, \<sigma>1)
        else (WriteHeader StatusInternalServerError rw,
              logger_Info ''failed to update product''
                [(''id'', StringValue (idFromRequest r)), (''error'', AnyValue err)] \<sigma>1))"
  using assms by (simp add: UpdateProduct_def invoke_def Let_def)

lemma DeleteProduct_failed:
  assumes "svc_DeleteProduct (service h) (Context r) (idFromRequest r) (store \<sigma>) = (Some err, s')"
  shows "DeleteProduct h rw r \<sigma> =
    (let \<sigma>1 = \<sigma>\<lparr>calls := calls \<sigma> @ [Call_DeleteProduct (Context r) (idFromRequest r)],
                 store := s'\<rparr>
     in if errors_Is err ErrNotFound then (WriteHeader StatusNotFound rw, \<sigma>1)
        else (WriteHeader StatusInternalServerError rw,
              logger_Info ''failed to delete product''
                [(''id'', StringValue (idFromRequest r)), (''error'', AnyValue err)] \<sigma>1))"
  using assms by (simp add: DeleteProduct_def invoke_def Let_def)

lemma status_Encode: "status rw = Some c \<Longrightarrow> status (Encode m rw) = Some c"
  by (cases m) (simp_all add: Encode_def Write_def WriteHeader_def Let_def)

lemma status_Header_Set [simp]: "status (Header_Set k v rw) = status rw"
  by (simp add: Header_Set_def)

lemma status_WriteHeader_fresh: "status rw = None \<Longrightarrow> status (WriteHeader c rw) = Some c"
  by (simp add: WriteHeader_def)

lemma status_NewRecorder [simp]: "status NewRecorder = None"
  by (simp add: NewRecorder_def)

lemma calls_logger_Info [simp]: "calls (logger_Info msg args \<sigma>) = calls \<sigma>"
  by (simp add: logger_Info_def)

lemma store_logger_Info [simp]: "store (logger_Info msg args \<sigma>) = store \<sigma>"
  by (simp add: logger_Info_def)

lemma idFromRequest_absent: "Vars r ''productID'' = None \<Longrightarrow> idFromRequest r = []"
  by (simp add: idFromRequest_def)

lemma Marshal_Product_finite:
  assumes "\<not> nonfinite (Price p)"
  shows \<open>Marshal_Product L p =
    Inr (''{'' @ join '',''
       ((if ID p = [] then [] else [''"id":'' @ encodeString L (ID p)]) @
        (if Name p = [] then [] else [''"name":'' @ encodeString L (Name p)]) @
        (if Description p = [] then []
         else [''"description":'' @ encodeString L (Description p)]) @
        (if isEmptyFloat (Price p) then [] else [''"price":'' @ FormatFloat L (Price p)]))
       @ ''}'')\<close>
  using assms by (simp add: Marshal_Product_def floatEncoder_def Let_def)

text \<open>A zero is finite, so a price left out by \<open>omitempty\<close> never fails to encode.\<close>

lemma zero_is_finite: "isEmptyFloat f \<Longrightarrow> \<not> nonfinite f"
proof
  assume z: "isEmptyFloat f" and nf: "nonfinite f"
  have "bit (push_bit 1 f) 53 \<longleftrightarrow> bit f 52"
    by (subst bit_push_bit_iff) simp
  with z have b52: "\<not> bit f 52"
    by (simp only: isEmptyFloat_def bit_0_eq) simp
  from nf have "bit (drop_bit 52 f AND 0x7FF) 0 = bit (0x7FF :: 64 word) 0"
    by (simp add: nonfinite_def)
  then have "bit f 52"
    by (simp add: bit_and_iff bit_drop_bit_eq)
  with b52 show False by simp
qed

lemma Marshal_Product_nonfinite:
  assumes "nonfinite (Price p)"
  shows "Marshal_Product L p = Inl (opaqueError ''json: unsupported value'')"
proof -
  from assms have "\<not> isEmptyFloat (Price p)"
    using zero_is_finite by blast
  with assms show ?thesis
    by (simp add: Marshal_Product_def floatEncoder_def Let_def)
qed

lemma CreateProduct_created:
  assumes "Decode_Product (json h) (Body r) = Inr p"
    and "svc_CreateProduct (service h) (Context r) p (store \<sigma>) = (Inr product, s')"
  shows "CreateProduct h rw r \<sigma> =
    (Encode (Marshal_Product (json h) product)
       (WriteHeader StatusCreated
         (Header_Set ''Content-Type'' ''application/json''
           (Header_Set ''Location'' (''/products/'' @ ID product) rw))),
     \<sigma>\<lparr>calls := calls \<sigma> @ [Call_CreateProduct (Context r) p], store := s'\<rparr>)"
  using assms by (simp add: CreateProduct_def invoke_def Let_def)

lemma Encode_new_response:
  "Encode (Inr b) (WriteHeader c (Header_Set k2 v2 (Header_Set k1 v1 NewRecorder))) =
     \<lparr>header = [k1 \<mapsto> v1, k2 \<mapsto> v2], status = Some c, written = b @ [CHR 0x0A]\<rparr>"
  by (simp add: Encode_def Write_def WriteHeader_def Header_Set_def NewRecorder_def Let_def)

lemma Encode_failed_response:
  "Encode (Inl e) (WriteHeader c (Header_Set k2 v2 (Header_Set k1 v1 NewRecorder))) =
     \<lparr>header = [k1 \<mapsto> v1, k2 \<mapsto> v2], status = Some c, written = []\<rparr>"
  by (simp add: Encode_def Write_def WriteHeader_def Header_Set_def NewRecorder_def Let_def)

text \<open>
  When the entity returned by the service has a price that is not finite, encoding fails
  after the status is written: the response is 201 with both headers and no body.
\<close>

lemma CreateProduct_unserializable:
  assumes "Decode_Product (json h) (Body r) = Inr p"
    and "svc_CreateProduct (service h) (Context r) p (store \<sigma>) = (Inr product, s')"
    and "nonfinite (Price product)"
  shows "fst (CreateProduct h NewRecorder r \<sigma>) =
    \<lparr>header = [''Location'' \<mapsto> ''/products/'' @ ID product,
                ''Content-Type'' \<mapsto> ''application/json''],
     status = Some StatusCreated, written = []\<rparr>"
  using assms
  by (simp add: CreateProduct_created Marshal_Product_nonfinite Encode_failed_response)



text \<open>
  C1, as stated, fails: a body that is not well-formed JSON as a whole is decoded when
  its first value is, since the decoder stops there. With bytes after the object the
  service is invoked, and the response is 201 for Create and 200 for Update.
\<close>

theorem trailing_bytes_counterexample:
  \<open>\<not> Valid ''{"name":"X"}xyz'' \<and>
   status (fst (CreateProduct (testing (Inr product_42)) NewRecorder
     (request None ''{"name":"X"}xyz'') idle)) = Some StatusCreated \<and>
   calls (snd (CreateProduct (testing (Inr product_42)) NewRecorder
     (request None ''{"name":"X"}xyz'') idle)) =
     [Call_CreateProduct () \<lparr>ID = [], Name = ''X'', Description = [], Price = 0\<rparr>] \<and>
   store (snd (CreateProduct (testing (Inr product_42)) NewRecorder
     (request None ''{"name":"X"}xyz'') idle)) = 1 \<and>
   \<not> Valid ''{}xyz'' \<and>
   status (fst (UpdateProduct (testing (Inr product_42)) NewRecorder
     (request (Some ''42'') ''{}xyz'') idle)) = Some StatusOK \<and>
   calls (snd (UpdateProduct (testing (Inr product_42)) NewRecorder
     (request (Some ''42'') ''{}xyz'') idle)) = [Call_UpdateProduct () ''42'' ProductUpdate] \<and>
   store (snd (UpdateProduct (testing (Inr product_42)) NewRecorder
     (request (Some ''42'') ''{}xyz'') idle)) = 1\<close>
  by (simp add: not_Valid_trailing testing_def stub_def request_def idle_def product_42_def
      idFromRequest_def sample_bodies CreateProduct_def UpdateProduct_def invoke_def
      status_Encode status_WriteHeader_fresh)

text \<open>
  C1 (amended): when the decoder rejects the body of a \<open>POST /products\<close> or
  \<open>PATCH /products/{id}\<close> request, because the first JSON value of the body is missing,
  cut short or not well-formed, or because it is structurally incompatible with the
  entity or the update, the response is 400 and the service is not invoked: no call is
  recorded and the service's state is as before.
\<close>

theorem undecodable_body_rejected:
  "(readValue (Body r) = Inl e \<or>
    (\<exists>v. readValue (Body r) = Inr v \<and> unmarshal_Product (json h) v = Inl e) \<longrightarrow>
      status (fst (CreateProduct h NewRecorder r \<sigma>)) = Some StatusBadRequest \<and>
      calls (snd (CreateProduct h NewRecorder r \<sigma>)) = calls \<sigma> \<and>
      store (snd (CreateProduct h NewRecorder r \<sigma>)) = store \<sigma>) \<and>
   (readValue (Body r) = Inl e \<or>
    (\<exists>v. readValue (Body r) = Inr v \<and> unmarshal_ProductUpdate v = Inl e) \<longrightarrow>
      status (fst (UpdateProduct h NewRecorder r \<sigma>)) = Some StatusBadRequest \<and>
      calls (snd (UpdateProduct h NewRecorder r \<sigma>)) = calls \<sigma> \<and>
      store (snd (UpdateProduct h NewRecorder r \<sigma>)) = store \<sigma>)"
proof -
  have create: "Decode_Product (json h) (Body r) = Inl e"
    if "readValue (Body r) = Inl e \<or>
      (\<exists>v. readValue (Body r) = Inr v \<and> unmarshal_Product (json h) v = Inl e)"
    using that by (auto simp add: Decode_Product_def)
  have update: "Decode_ProductUpdate (json h) (Body r) = Inl e"
    if "readValue (Body r) = Inl e \<or>
      (\<exists>v. readValue (Body r) = Inr v \<and> unmarshal_ProductUpdate v = Inl e)"
    using that by (auto simp add: Decode_ProductUpdate_def)
  show ?thesis
    using create update by (auto simp add: CreateProduct_def UpdateProduct_def)
qed

theorem undecodable_body_rejected_witness:
  \<open>readValue (Body (request (Some ''7'') ''{"name":'')) = Inl (opaqueError ''unexpected EOF'') \<and>
   status (fst (CreateProduct (testing (Inr product_42)) NewRecorder
     (request (Some ''7'') ''{"name":'') idle)) = Some 400 \<and>
   calls (snd (CreateProduct (testing (Inr product_42)) NewRecorder
     (request (Some ''7'') ''{"name":'') idle)) = [] \<and>
   store (snd (CreateProduct (testing (Inr product_42)) NewRecorder
     (request (Some ''7'') ''{"name":'') idle)) = 0 \<and>
   status (fst (UpdateProduct (testing (Inr product_42)) NewRecorder
     (request (Some ''7'') ''{"name":'') idle)) = Some 400 \<and>
   calls (snd (UpdateProduct (testing (Inr product_42)) NewRecorder
     (request (Some ''7'') ''{"name":'') idle)) = [] \<and>
   store (snd (UpdateProduct (testing (Inr product_42)) NewRecorder
     (request (Some ''7'') ''{"name":'') idle)) = 0 \<and>
   readValue (Body (request (Some ''7'') ''[]'')) = Inr (JArray []) \<and>
   unmarshal_Product sample_json (JArray []) =
     Inl (opaqueError ''json: cannot unmarshal into Go value of type shop.Product'') \<and>
   status (fst (CreateProduct (testing (Inr product_42)) NewRecorder
     (request (Some ''7'') ''[]'') idle)) = Some 400 \<and>
   calls (snd (CreateProduct (testing (Inr product_42)) NewRecorder
     (request (Some ''7'') ''[]'') idle)) = [] \<and>
   unmarshal_ProductUpdate (JArray []) =
     Inl (opaqueError ''json: cannot unmarshal into Go value of type shop.ProductUpdate'') \<and>
   status (fst (UpdateProduct (testing (Inr product_42)) NewRecorder
     (request (Some ''7'') ''[]'') idle)) = Some 400 \<and>
   calls (snd (UpdateProduct (testing (Inr product_42)) NewRecorder
     (request (Some ''7'') ''[]'') idle)) = []\<close>
  using undecodable_body_rejected [of \<open>request (Some ''7'') ''{"name":''\<close>
      "opaqueError ''unexpected EOF''" "testing (Inr product_42)" idle]
    undecodable_body_rejected [of \<open>request (Some ''7'') ''[]''\<close>
      "opaqueError ''json: cannot unmarshal into Go value of type shop.Product''"
      "testing (Inr product_42)" idle]
    undecodable_body_rejected [of \<open>request (Some ''7'') ''[]''\<close>
      "opaqueError ''json: cannot unmarshal into Go value of type shop.ProductUpdate''"
      "testing (Inr product_42)" idle]
  by (simp add: request_def testing_def idle_def readValue_empty_array readValue_cut_short
      unmarshal_Product_def unmarshal_ProductUpdate_def)

text \<open>
  C2: when the service answers \<open>GetProduct\<close>, \<open>UpdateProduct\<close> or \<open>DeleteProduct\<close>
  with an error that is \<open>ErrNotFound\<close>, the response is 404 and the logger emits
  nothing.
\<close>

theorem not_found_is_404_unlogged:
  "(svc_GetProduct (service h) (Context r) (idFromRequest r) (store \<sigma>) = (Inl err, s') \<and>
    errors_Is err ErrNotFound \<longrightarrow>
      status (fst (GetProduct h NewRecorder r \<sigma>)) = Some StatusNotFound \<and>
      log (snd (GetProduct h NewRecorder r \<sigma>)) = log \<sigma>) \<and>
   (Decode_ProductUpdate (json h) (Body r) = Inr upd \<and>
    svc_UpdateProduct (service h) (Context r) (idFromRequest r) upd (store \<sigma>) = (Inl err, s') \<and>
    errors_Is err ErrNotFound \<longrightarrow>
      status (fst (UpdateProduct h NewRecorder r \<sigma>)) = Some StatusNotFound \<and>
      log (snd (UpdateProduct h NewRecorder r \<sigma>)) = log \<sigma>) \<and>
   (svc_DeleteProduct (service h) (Context r) (idFromRequest r) (store \<sigma>) = (Some err, s') \<and>
    errors_Is err ErrNotFound \<longrightarrow>
      status (fst (DeleteProduct h NewRecorder r \<sigma>)) = Some StatusNotFound \<and>
      log (snd (DeleteProduct h NewRecorder r \<sigma>)) = log \<sigma>)"
  by (simp add: GetProduct_failed UpdateProduct_failed DeleteProduct_failed Let_def)

theorem not_found_is_404_unlogged_witness:
  \<open>svc_GetProduct (service (testing (Inl ErrNotFound))) () ''7'' 0 = (Inl ErrNotFound, 1) \<and>
   errors_Is ErrNotFound ErrNotFound \<and>
   status (fst (GetProduct (testing (Inl ErrNotFound)) NewRecorder (request (Some ''7'') []) idle))
     = Some 404 \<and>
   log (snd (GetProduct (testing (Inl ErrNotFound)) NewRecorder (request (Some ''7'') []) idle))
     = [] \<and>
   Decode_ProductUpdate sample_json ''{}'' = Inr ProductUpdate \<and>
   status (fst (UpdateProduct (testing (Inl ErrNotFound)) NewRecorder
     (request (Some ''7'') ''{}'') idle)) = Some 404 \<and>
   log (snd (UpdateProduct (testing (Inl ErrNotFound)) NewRecorder
     (request (Some ''7'') ''{}'') idle)) = [] \<and>
   svc_DeleteProduct (service (testing (Inl ErrNotFound))) () ''7'' 0 = (Some ErrNotFound, 1) \<and>
   status (fst (DeleteProduct (testing (Inl ErrNotFound)) NewRecorder
     (request (Some ''7'') []) idle)) = Some 404 \<and>
   log (snd (DeleteProduct (testing (Inl ErrNotFound)) NewRecorder
     (request (Some ''7'') []) idle)) = []\<close>
  using not_found_is_404_unlogged [of "testing (Inl ErrNotFound)" \<open>request (Some ''7'') []\<close>
      idle ErrNotFound 1 ProductUpdate]
    not_found_is_404_unlogged [of "testing (Inl ErrNotFound)" \<open>request (Some ''7'') ''{}''\<close>
      idle ErrNotFound 1 ProductUpdate]
  by (simp add: testing_def stub_def sample_json_def sample_bodies request_def idle_def idFromRequest_def
      ErrNotFound_def)

text \<open>
  C3: when the service answers \<open>GetProduct\<close>, \<open>UpdateProduct\<close> or \<open>DeleteProduct\<close>
  with an error that is not \<open>ErrNotFound\<close>, the response is 500 and the logger emits
  exactly one record: at info level, with the message naming the operation, the
  identifier under \<open>id\<close> and the error under \<open>error\<close>.
\<close>

theorem failure_is_500_logged_once:
  "(svc_GetProduct (service h) (Context r) (idFromRequest r) (store \<sigma>) = (Inl err, s') \<and>
    \<not> errors_Is err ErrNotFound \<longrightarrow>
      status (fst (GetProduct h NewRecorder r \<sigma>)) = Some StatusInternalServerError \<and>
      log (snd (GetProduct h NewRecorder r \<sigma>)) = log \<sigma> @
        [\<lparr>level = LevelInfo, message = ''failed to get product'',
          attrs = [(''id'', StringValue (idFromRequest r)), (''error'', AnyValue err)]\<rparr>]) \<and>
   (Decode_ProductUpdate (json h) (Body r) = Inr upd \<and>
    svc_UpdateProduct (service h) (Context r) (idFromRequest r) upd (store \<sigma>) = (Inl err, s') \<and>
    \<not> errors_Is err ErrNotFound \<longrightarrow>
      status (fst (UpdateProduct h NewRecorder r \<sigma>)) = Some StatusInternalServerError \<and>
      log (snd (UpdateProduct h NewRecorder r \<sigma>)) = log \<sigma> @
        [\<lparr>level = LevelInfo, message = ''failed to update product'',
          attrs = [(''id'', StringValue (idFromRequest r)), (''error'', AnyValue err)]\<rparr>]) \<and>
   (svc_DeleteProduct (service h) (Context r) (idFromRequest r) (store \<sigma>) = (Some err, s') \<and>
    \<not> errors_Is err ErrNotFound \<longrightarrow>
      status (fst (DeleteProduct h NewRecorder r \<sigma>)) = Some StatusInternalServerError \<and>
      log (snd (DeleteProduct h NewRecorder r \<sigma>)) = log \<sigma> @
        [\<lparr>level = LevelInfo, message = ''failed to delete product'',
          attrs = [(''id'', StringValue (idFromRequest r)), (''error'', AnyValue err)]\<rparr>])"
  by (simp add: GetProduct_failed UpdateProduct_failed DeleteProduct_failed Let_def)

theorem failure_is_500_logged_once_witness:
  \<open>svc_GetProduct (service (testing (Inl (opaqueError ''db down'')))) () ''7'' 0
     = (Inl (opaqueError ''db down''), 1) \<and>
   \<not> errors_Is (opaqueError ''db down'') ErrNotFound \<and>
   status (fst (GetProduct (testing (Inl (opaqueError ''db down''))) NewRecorder
     (request (Some ''7'') []) idle)) = Some 500 \<and>
   log (snd (GetProduct (testing (Inl (opaqueError ''db down''))) NewRecorder
     (request (Some ''7'') []) idle)) =
     [\<lparr>level = LevelInfo, message = ''failed to get product'',
       attrs = [(''id'', StringValue ''7''), (''error'', AnyValue (opaqueError ''db down''))]\<rparr>] \<and>
   status (fst (UpdateProduct (testing (Inl (opaqueError ''db down''))) NewRecorder
     (request (Some ''7'') ''{}'') idle)) = Some 500 \<and>
   log (snd (UpdateProduct (testing (Inl (opaqueError ''db down''))) NewRecorder
     (request (Some ''7'') ''{}'') idle)) =
     [\<lparr>level = LevelInfo, message = ''failed to update product'',
       attrs = [(''id'', StringValue ''7''), (''error'', AnyValue (opaqueError ''db down''))]\<rparr>] \<and>
   status (fst (DeleteProduct (testing (Inl (opaqueError ''db down''))) NewRecorder
     (request (Some ''7'') []) idle)) = Some 500 \<and>
   log (snd (DeleteProduct (testing (Inl (opaqueError ''db down''))) NewRecorder
     (request (Some ''7'') []) idle)) =
     [\<lparr>level = LevelInfo, message = ''failed to delete product'',
       attrs = [(''id'', StringValue ''7''), (''error'', AnyValue (opaqueError ''db down''))]\<rparr>]\<close>
  using failure_is_500_logged_once [of "testing (Inl (opaqueError ''db down''))"
      \<open>request (Some ''7'') []\<close> idle "opaqueError ''db down''" 1 ProductUpdate]
    failure_is_500_logged_once [of "testing (Inl (opaqueError ''db down''))"
      \<open>request (Some ''7'') ''{}''\<close> idle "opaqueError ''db down''" 1 ProductUpdate]
  by (simp add: testing_def stub_def sample_json_def sample_bodies request_def idle_def idFromRequest_def
      ErrNotFound_def)

text \<open>
  C4 (what the code does): when the body of a \<open>POST /products\<close> or
  \<open>PATCH /products/{id}\<close> request does not decode, the response is 400 and the
  logger emits nothing; only \<open>ListProducts\<close> logs a decode failure.
\<close>

theorem body_decode_failure_unlogged:
  "(Decode_Product (json h) (Body r) = Inl e \<longrightarrow>
      status (fst (CreateProduct h NewRecorder r \<sigma>)) = Some StatusBadRequest \<and>
      log (snd (CreateProduct h NewRecorder r \<sigma>)) = log \<sigma>) \<and>
   (Decode_ProductUpdate (json h) (Body r) = Inl e \<longrightarrow>
      status (fst (UpdateProduct h NewRecorder r \<sigma>)) = Some StatusBadRequest \<and>
      log (snd (UpdateProduct h NewRecorder r \<sigma>)) = log \<sigma>)"
  by (simp add: CreateProduct_def UpdateProduct_def)

theorem body_decode_failure_unlogged_witness:
  \<open>Decode_Product sample_json ''{"name":'' = Inl (opaqueError ''unexpected EOF'') \<and>
   status (fst (CreateProduct (testing (Inl ErrNotFound)) NewRecorder
     (request None ''{"name":'') idle)) = Some 400 \<and>
   log (snd (CreateProduct (testing (Inl ErrNotFound)) NewRecorder
     (request None ''{"name":'') idle)) = [] \<and>
   Decode_ProductUpdate sample_json ''{"name":'' = Inl (opaqueError ''unexpected EOF'') \<and>
   status (fst (UpdateProduct (testing (Inl ErrNotFound)) NewRecorder
     (request (Some ''7'') ''{"name":'') idle)) = Some 400 \<and>
   log (snd (UpdateProduct (testing (Inl ErrNotFound)) NewRecorder
     (request (Some ''7'') ''{"name":'') idle)) = []\<close>
  using body_decode_failure_unlogged [of "testing (Inl ErrNotFound)" \<open>request None ''{"name":''\<close>
      "opaqueError ''unexpected EOF''" idle]
    body_decode_failure_unlogged [of "testing (Inl ErrNotFound)"
      \<open>request (Some ''7'') ''{"name":''\<close> "opaqueError ''unexpected EOF''" idle]
  by (simp add: testing_def sample_json_def sample_bodies request_def idle_def)

text \<open>
  C5, as stated, fails for an entity that does not serialize: the service returns a
  product whose price is a NaN, the encoder reports an error that the handler drops,
  and the 201 response has an empty body.
\<close>

theorem unserializable_entity_counterexample:
  \<open>Decode_Product (json (testing (Inr product_nan))) (Body (request None ''{"name":"X"}''))
     = Inr \<lparr>ID = [], Name = ''X'', Description = [], Price = 0\<rparr> \<and>
   svc_CreateProduct (service (testing (Inr product_nan))) ()
     \<lparr>ID = [], Name = ''X'', Description = [], Price = 0\<rparr> 0 = (Inr product_nan, 1) \<and>
   status (fst (CreateProduct (testing (Inr product_nan)) NewRecorder
     (request None ''{"name":"X"}'') idle)) = Some StatusCreated \<and>
   written (fst (CreateProduct (testing (Inr product_nan)) NewRecorder
     (request None ''{"name":"X"}'') idle)) = []\<close>
  by (simp add: testing_def stub_def sample_json_def sample_bodies request_def idle_def product_nan_def
      CreateProduct_created Marshal_Product_def floatEncoder_def nonfinite_def isEmptyFloat_def
      Encode_failed_response)

text \<open>
  C5 (amended): when the body decodes, the service succeeds and the price of the entity
  it returns is finite, the response is 201 with \<open>Location: /products/{id}\<close> (the id of
  the returned entity) and \<open>Content-Type: application/json\<close>, and the body is the JSON
  object of the returned entity, fields \<open>id\<close>, \<open>name\<close>, \<open>description\<close>, \<open>price\<close>
  in this order with every empty one left out, followed by a newline.
\<close>

theorem create_success_response:
  assumes "Decode_Product (json h) (Body r) = Inr p"
    and "svc_CreateProduct (service h) (Context r) p (store \<sigma>) = (Inr product, s')"
    and "\<not> nonfinite (Price product)"
  shows \<open>fst (CreateProduct h NewRecorder r \<sigma>) =
    \<lparr>header = [''Location'' \<mapsto> ''/products/'' @ ID product,
                ''Content-Type'' \<mapsto> ''application/json''],
     status = Some StatusCreated,
     written = ''{'' @ join '',''
       ((if ID product = [] then [] else [''"id":'' @ encodeString (json h) (ID product)]) @
        (if Name product = [] then []
         else [''"name":'' @ encodeString (json h) (Name product)]) @
        (if Description product = [] then []
         else [''"description":'' @ encodeString (json h) (Description product)]) @
        (if isEmptyFloat (Price product) then []
         else [''"price":'' @ FormatFloat (json h) (Price product)]))
       @ ''}'' @ [CHR 0x0A]\<rparr>\<close>
  using assms
  by (simp add: CreateProduct_created Marshal_Product_finite Encode_new_response)

theorem create_success_response_witness:
  \<open>Decode_Product (json (testing (Inr product_42))) (Body (request None ''{"name":"X"}''))
     = Inr \<lparr>ID = [], Name = ''X'', Description = [], Price = 0\<rparr> \<and>
   svc_CreateProduct (service (testing (Inr product_42))) ()
     \<lparr>ID = [], Name = ''X'', Description = [], Price = 0\<rparr> 0 = (Inr product_42, 1) \<and>
   \<not> nonfinite (Price product_42) \<and>
   fst (CreateProduct (testing (Inr product_42)) NewRecorder (request None ''{"name":"X"}'') idle)
     = \<lparr>header = [''Location'' \<mapsto> ''/products/42'', ''Content-Type'' \<mapsto> ''application/json''],
        status = Some 201,
        written = ''{"id":"42","name":"X"}'' @ [CHR 0x0A]\<rparr>\<close>
  using create_success_response [of "testing (Inr product_42)" \<open>request None ''{"name":"X"}''\<close>
      "\<lparr>ID = [], Name = ''X'', Description = [], Price = 0\<rparr>" idle product_42 1]
  by (simp add: testing_def stub_def sample_json_def sample_bodies request_def idle_def product_42_def
      nonfinite_def isEmptyFloat_def encodeString_def encodeContent_def htmlSafe_def)

text \<open>
  C6: when the service's \<open>DeleteProduct\<close> returns no error, the response is 204 and
  nothing is written to the body.
\<close>

theorem delete_success_is_204_empty:
  "svc_DeleteProduct (service h) (Context r) (idFromRequest r) (store \<sigma>) = (None, s') \<Longrightarrow>
     status (fst (DeleteProduct h NewRecorder r \<sigma>)) = Some StatusNoContent \<and>
     written (fst (DeleteProduct h NewRecorder r \<sigma>)) = []"
  by (simp add: DeleteProduct_def invoke_def Let_def WriteHeader_def NewRecorder_def)

theorem delete_success_is_204_empty_witness:
  \<open>svc_DeleteProduct
     (service (testing (Inr \<lparr>ID = ''7'', Name = ''X'', Description = ''a thing'', Price = 1\<rparr>)))
     () ''7'' 0 = (None, 1) \<and>
   status (fst (DeleteProduct
     (testing (Inr \<lparr>ID = ''7'', Name = ''X'', Description = ''a thing'', Price = 1\<rparr>))
     NewRecorder (request (Some ''7'') []) idle)) = Some 204 \<and>
   written (fst (DeleteProduct
     (testing (Inr \<lparr>ID = ''7'', Name = ''X'', Description = ''a thing'', Price = 1\<rparr>))
     NewRecorder (request (Some ''7'') []) idle)) = []\<close>
  using delete_success_is_204_empty
    [of "testing (Inr \<lparr>ID = ''7'', Name = ''X'', Description = ''a thing'', Price = 1\<rparr>)"
      \<open>request (Some ''7'') []\<close> idle 1]
  by (simp add: testing_def stub_def request_def idle_def idFromRequest_def)

text \<open>
  C7: no key of a query names a field of \<open>ProductFilter\<close>, and the decoder ignores
  unknown keys: for every query decoding gives the filter with no criterion, the
  service's \<open>ListProducts\<close> is invoked with it (the call is recorded and the service is
  left in the state the call returns), and the status is 200 or 500 as the service
  answers, never 400.
\<close>

theorem unknown_query_keys_ignored:
  "schema_Decode (IgnoreUnknownKeys True schema_NewDecoder) (URL_Query r) = Inr ProductFilter \<and>
   calls (snd (ListProducts h NewRecorder r \<sigma>)) =
     calls \<sigma> @ [Call_ListProducts (Context r) ProductFilter] \<and>
   store (snd (ListProducts h NewRecorder r \<sigma>)) =
     snd (svc_ListProducts (service h) (Context r) ProductFilter (store \<sigma>)) \<and>
   status (fst (ListProducts h NewRecorder r \<sigma>)) =
     Some (case fst (svc_ListProducts (service h) (Context r) ProductFilter (store \<sigma>)) of
             Inl err \<Rightarrow> StatusInternalServerError
           | Inr products \<Rightarrow> StatusOK)"
proof -
  have dec: "schema_Decode (IgnoreUnknownKeys True schema_NewDecoder) (URL_Query r) = Inr ProductFilter"
    by (simp add: schema_Decode_def IgnoreUnknownKeys_def schema_NewDecoder_def)
  obtain res s' where svc:
    "svc_ListProducts (service h) (Context r) ProductFilter (store \<sigma>) = (res, s')"
    by (cases "svc_ListProducts (service h) (Context r) ProductFilter (store \<sigma>)")
  show ?thesis
  proof (cases res)
    case (Inl err)
    with dec svc show ?thesis
      by (simp add: ListProducts_def invoke_def Let_def)
  next
    case (Inr products)
    with dec svc show ?thesis
      by (simp add: ListProducts_def invoke_def Let_def status_Encode status_WriteHeader_fresh)
  qed
qed

text \<open>Without \<open>IgnoreUnknownKeys(true)\<close> the same decoder refuses a key it does not know.\<close>

lemma unknown_key_refused_by_default:
  "schema_Decode schema_NewDecoder [(''colour'', [''red''])] = Inl (opaqueError ''schema: invalid path'')"
  by (simp add: schema_Decode_def schema_NewDecoder_def)

theorem unknown_query_keys_ignored_witness:
  \<open>calls (snd (ListProducts (testing (Inr \<lparr>ID = ''7'', Name = ''X'', Description = [], Price = 0\<rparr>))
      NewRecorder ((request None [])\<lparr>URL_Query := [(''colour'', [''red'']), (''page'', [''2''])]\<rparr>)
      idle)) = [Call_ListProducts () ProductFilter] \<and>
   store (snd (ListProducts (testing (Inr \<lparr>ID = ''7'', Name = ''X'', Description = [], Price = 0\<rparr>))
      NewRecorder ((request None [])\<lparr>URL_Query := [(''colour'', [''red'']), (''page'', [''2''])]\<rparr>)
      idle)) = 1 \<and>
   status (fst (ListProducts (testing (Inr \<lparr>ID = ''7'', Name = ''X'', Description = [], Price = 0\<rparr>))
      NewRecorder ((request None [])\<lparr>URL_Query := [(''colour'', [''red'']), (''page'', [''2''])]\<rparr>)
      idle)) = Some 200\<close>
  using unknown_query_keys_ignored
    [of \<open>(request None [])\<lparr>URL_Query := [(''colour'', [''red'']), (''page'', [''2''])]\<rparr>\<close>
      "testing (Inr \<lparr>ID = ''7'', Name = ''X'', Description = [], Price = 0\<rparr>)" idle]
  by (simp add: request_def idle_def testing_def stub_def)




text \<open>
  C9, as stated, fails: with no \<open>productID\<close> among the route variables the identifier
  is empty, and a service that answers \<open>GetProduct\<close> for it with a product gets the
  response 200, not 404.
\<close>

theorem empty_id_served_counterexample:
  "Vars (request None []) ''productID'' = None \<and>
   idFromRequest (request None []) = [] \<and>
   status (fst (GetProduct (testing (Inr product_42)) NewRecorder (request None []) idle))
     = Some StatusOK"
  by (simp add: request_def idFromRequest_def testing_def stub_def idle_def GetProduct_def
      invoke_def status_Encode status_WriteHeader_fresh)

text \<open>
  C9 (amended): with no \<open>productID\<close> among the route variables the identifier is the
  empty string, and the handlers hand it to the service as any other identifier: the
  service is invoked with it, and the status follows the service's answer alone (404
  exactly when the answer is an error that is \<open>ErrNotFound\<close>), never 400.
\<close>

theorem empty_id_passed_to_service:
  assumes "Vars r ''productID'' = None"
  shows "idFromRequest r = [] \<and>
    calls (snd (GetProduct h NewRecorder r \<sigma>)) = calls \<sigma> @ [Call_GetProduct (Context r) []] \<and>
    status (fst (GetProduct h NewRecorder r \<sigma>)) =
      Some (case fst (svc_GetProduct (service h) (Context r) [] (store \<sigma>)) of
              Inl err \<Rightarrow> if errors_Is err ErrNotFound then StatusNotFound
                         else StatusInternalServerError
            | Inr product \<Rightarrow> StatusOK) \<and>
    calls (snd (DeleteProduct h NewRecorder r \<sigma>)) =
      calls \<sigma> @ [Call_DeleteProduct (Context r) []] \<and>
    status (fst (DeleteProduct h NewRecorder r \<sigma>)) =
      Some (case fst (svc_DeleteProduct (service h) (Context r) [] (store \<sigma>)) of
              Some err \<Rightarrow> if errors_Is err ErrNotFound then StatusNotFound
                          else StatusInternalServerError
            | None \<Rightarrow> StatusNoContent) \<and>
    (\<forall>upd. Decode_ProductUpdate (json h) (Body r) = Inr upd \<longrightarrow>
       calls (snd (UpdateProduct h NewRecorder r \<sigma>)) =
         calls \<sigma> @ [Call_UpdateProduct (Context r) [] upd] \<and>
       status (fst (UpdateProduct h NewRecorder r \<sigma>)) =
         Some (case fst (svc_UpdateProduct (service h) (Context r) [] upd (store \<sigma>)) of
                 Inl err \<Rightarrow> if errors_Is err ErrNotFound then StatusNotFound
                            else StatusInternalServerError
               | Inr product \<Rightarrow> StatusOK))"
proof -
  have id: "idFromRequest r = []"
    using assms by (rule idFromRequest_absent)
  have get: "calls (snd (GetProduct h NewRecorder r \<sigma>)) = calls \<sigma> @ [Call_GetProduct (Context r) []] \<and>
    status (fst (GetProduct h NewRecorder r \<sigma>)) =
      Some (case fst (svc_GetProduct (service h) (Context r) [] (store \<sigma>)) of
              Inl err \<Rightarrow> if errors_Is err ErrNotFound then StatusNotFound
                         else StatusInternalServerError
            | Inr product \<Rightarrow> StatusOK)"
    by (simp add: GetProduct_def id invoke_def Let_def status_Encode status_WriteHeader_fresh
        split: prod.split sum.split)
  have del: "calls (snd (DeleteProduct h NewRecorder r \<sigma>)) =
      calls \<sigma> @ [Call_DeleteProduct (Context r) []] \<and>
    status (fst (DeleteProduct h NewRecorder r \<sigma>)) =
      Some (case fst (svc_DeleteProduct (service h) (Context r) [] (store \<sigma>)) of
              Some err \<Rightarrow> if errors_Is err ErrNotFound then StatusNotFound
                          else StatusInternalServerError
            | None \<Rightarrow> StatusNoContent)"
    by (simp add: DeleteProduct_def id invoke_def Let_def split: prod.split option.split)
  have upd: "\<forall>upd. Decode_ProductUpdate (json h) (Body r) = Inr upd \<longrightarrow>
       calls (snd (UpdateProduct h NewRecorder r \<sigma>)) =
         calls \<sigma> @ [Call_UpdateProduct (Context r) [] upd] \<and>
       status (fst (UpdateProduct h NewRecorder r \<sigma>)) =
         Some (case fst (svc_UpdateProduct (service h) (Context r) [] upd (store \<sigma>)) of
                 Inl err \<Rightarrow> if errors_Is err ErrNotFound then StatusNotFound
                            else StatusInternalServerError
               | Inr product \<Rightarrow> StatusOK)"
    by (simp add: UpdateProduct_def id invoke_def Let_def status_Encode status_WriteHeader_fresh
        split: prod.split sum.split)
  from id get del upd show ?thesis by simp
qed

theorem empty_id_passed_to_service_witness:
  "Vars (request None ''{}'') ''productID'' = None \<and>
   idFromRequest (request None ''{}'') = [] \<and>
   calls (snd (GetProduct (testing (Inl ErrNotFound)) NewRecorder (request None ''{}'') idle))
     = [Call_GetProduct () []] \<and>
   status (fst (GetProduct (testing (Inl ErrNotFound)) NewRecorder (request None ''{}'') idle))
     = Some 404 \<and>
   status (fst (DeleteProduct (testing (Inl ErrNotFound)) NewRecorder (request None ''{}'') idle))
     = Some 404 \<and>
   status (fst (UpdateProduct (testing (Inl ErrNotFound)) NewRecorder (request None ''{}'') idle))
     = Some 404 \<and>
   calls (snd (UpdateProduct (testing (Inl ErrNotFound)) NewRecorder (request None ''{}'') idle))
     = [Call_UpdateProduct () [] ProductUpdate]"
  using empty_id_passed_to_service [of "request None ''{}''" "testing (Inl ErrNotFound)" idle]
  by (simp add: request_def testing_def stub_def sample_json_def sample_bodies idle_def ErrNotFound_def)

text \<open>
  C10, as stated, fails in its second half: an error whose \<open>Is\<close> method accepts
  \<open>ErrNotFound\<close> has a chain without the sentinel and is classified as 404.
\<close>

theorem is_method_counterexample:
  "ErrNotFound \<notin> set (chain no_such_row) \<and>
   status (fst (GetProduct (testing (Inl no_such_row)) NewRecorder (request (Some ''7'') []) idle))
     = Some StatusNotFound \<and>
   status (fst (DeleteProduct (testing (Inl no_such_row)) NewRecorder (request (Some ''7'') []) idle))
     = Some StatusNotFound"
  by (simp add: no_such_row_def ErrNotFound_def testing_def stub_def request_def idle_def
      idFromRequest_def GetProduct_def DeleteProduct_def invoke_def)

text \<open>
  C10 (amended): on \<open>GetProduct\<close>, \<open>UpdateProduct\<close> and \<open>DeleteProduct\<close>, an error
  whose wrapping chain contains \<open>ErrNotFound\<close> is classified as 404 and not logged, and
  an error whose chain has no error matching \<open>ErrNotFound\<close> (none is the sentinel, none
  accepts it by its \<open>Is\<close> method) is classified as 500.
\<close>

theorem classification_closed_under_wrapping:
  "(svc_GetProduct (service h) (Context r) (idFromRequest r) (store \<sigma>) = (Inl err, s') \<longrightarrow>
      (ErrNotFound \<in> set (chain err) \<longrightarrow>
         status (fst (GetProduct h NewRecorder r \<sigma>)) = Some StatusNotFound \<and>
         log (snd (GetProduct h NewRecorder r \<sigma>)) = log \<sigma>) \<and>
      ((\<forall>x \<in> set (chain err). \<not> matches x ErrNotFound) \<longrightarrow>
         status (fst (GetProduct h NewRecorder r \<sigma>)) = Some StatusInternalServerError)) \<and>
   (Decode_ProductUpdate (json h) (Body r) = Inr upd \<and>
    svc_UpdateProduct (service h) (Context r) (idFromRequest r) upd (store \<sigma>) = (Inl err, s') \<longrightarrow>
      (ErrNotFound \<in> set (chain err) \<longrightarrow>
         status (fst (UpdateProduct h NewRecorder r \<sigma>)) = Some StatusNotFound \<and>
         log (snd (UpdateProduct h NewRecorder r \<sigma>)) = log \<sigma>) \<and>
      ((\<forall>x \<in> set (chain err). \<not> matches x ErrNotFound) \<longrightarrow>
         status (fst (UpdateProduct h NewRecorder r \<sigma>)) = Some StatusInternalServerError)) \<and>
   (svc_DeleteProduct (service h) (Context r) (idFromRequest r) (store \<sigma>) = (Some err, s') \<longrightarrow>
      (ErrNotFound \<in> set (chain err) \<longrightarrow>
         status (fst (DeleteProduct h NewRecorder r \<sigma>)) = Some StatusNotFound \<and>
         log (snd (DeleteProduct h NewRecorder r \<sigma>)) = log \<sigma>) \<and>
      ((\<forall>x \<in> set (chain err). \<not> matches x ErrNotFound) \<longrightarrow>
         status (fst (DeleteProduct h NewRecorder r \<sigma>)) = Some StatusInternalServerError))"
proof -
  have nf: "ErrNotFound \<in> set (chain err) \<Longrightarrow> errors_Is err ErrNotFound"
    by (rule errors_Is_member)
  have other: "\<forall>x \<in> set (chain err). \<not> matches x ErrNotFound \<Longrightarrow> \<not> errors_Is err ErrNotFound"
    by (simp add: errors_Is_chain)
  show ?thesis
    using nf other
    by (auto simp add: GetProduct_failed UpdateProduct_failed DeleteProduct_failed Let_def)
qed

theorem classification_closed_under_wrapping_witness:
  \<open>ErrNotFound \<in> set (chain wrapped_not_found) \<and> wrapped_not_found \<noteq> ErrNotFound \<and>
   status (fst (GetProduct (testing (Inl wrapped_not_found)) NewRecorder
     (request (Some ''7'') []) idle)) = Some 404 \<and>
   log (snd (GetProduct (testing (Inl wrapped_not_found)) NewRecorder
     (request (Some ''7'') []) idle)) = [] \<and>
   status (fst (UpdateProduct (testing (Inl wrapped_not_found)) NewRecorder
     (request (Some ''7'') ''{}'') idle)) = Some 404 \<and>
   log (snd (UpdateProduct (testing (Inl wrapped_not_found)) NewRecorder
     (request (Some ''7'') ''{}'') idle)) = [] \<and>
   status (fst (DeleteProduct (testing (Inl wrapped_not_found)) NewRecorder
     (request (Some ''7'') []) idle)) = Some 404 \<and>
   log (snd (DeleteProduct (testing (Inl wrapped_not_found)) NewRecorder
     (request (Some ''7'') []) idle)) = [] \<and>
   list_all (\<lambda>x. \<not> matches x ErrNotFound) (chain look_alike) \<and>
   status (fst (GetProduct (testing (Inl look_alike)) NewRecorder
     (request (Some ''7'') []) idle)) = Some 500 \<and>
   status (fst (UpdateProduct (testing (Inl look_alike)) NewRecorder
     (request (Some ''7'') ''{}'') idle)) = Some 500 \<and>
   status (fst (DeleteProduct (testing (Inl look_alike)) NewRecorder
     (request (Some ''7'') []) idle)) = Some 500\<close>
  using classification_closed_under_wrapping [of "testing (Inl wrapped_not_found)"
      \<open>request (Some ''7'') []\<close> idle wrapped_not_found 1 ProductUpdate]
    classification_closed_under_wrapping [of "testing (Inl wrapped_not_found)"
      \<open>request (Some ''7'') ''{}''\<close> idle wrapped_not_found 1 ProductUpdate]
    classification_closed_under_wrapping [of "testing (Inl look_alike)"
      \<open>request (Some ''7'') []\<close> idle look_alike 1 ProductUpdate]
    classification_closed_under_wrapping [of "testing (Inl look_alike)"
      \<open>request (Some ''7'') ''{}''\<close> idle look_alike 1 ProductUpdate]
  by (simp add: testing_def stub_def sample_json_def sample_bodies request_def idle_def idFromRequest_def
      ErrNotFound_def wrapped_not_found_def look_alike_def)

end
